theory Spec2Isabelle
  imports Main
begin

section \<open>The interactive session\<close>

text \<open>
  The workshop notebook \<^verbatim>\<open>GeoPython2023.ipynb\<close> is a sequence of code cells run in an
  interactive Python session; a second notebook of two cells prints the versions of
  the installed libraries. The notebooks contain no \<^verbatim>\<open>try\<close>, \<^verbatim>\<open>except\<close>,
  \<^verbatim>\<open>with\<close>, \<^verbatim>\<open>raise\<close> or \<^verbatim>\<open>class\<close> statement, but many cells of the first run
  statements under the magics \<^verbatim>\<open>%time\<close>, \<^verbatim>\<open>%%time\<close> and \<^verbatim>\<open>%timeit\<close>.

  An exception is modelled by its class; \<^verbatim>\<open>NameError\<close> carries the name that is not
  bound, and \<open>LibraryError\<close> stands for any other class a wrapped library raises, by
  its name.
\<close>

type_synonym path = string

datatype py_error =
    FileNotFoundError
  | NameError string
  | ValueError
  | GEOSException
  | LibraryError string

datatype io_req = Read path | Write path

text \<open>
  The spellings of a CRS argument the notebook uses: an authority string
  (\<^verbatim>\<open>"epsg:3857"\<close>), an EPSG integer (\<^verbatim>\<open>3857\<close>), the keyword \<^verbatim>\<open>epsg=3857\<close>, a
  dictionary (\<^verbatim>\<open>{"init": "epsg:3857"}\<close>) and a tuple (\<^verbatim>\<open>("epsg", "4326")\<close>).
\<close>

datatype crs_arg =
    CrsString string
  | CrsInt int
  | CrsEpsgKeyword int
  | CrsDict "(string \<times> string) list"
  | CrsTuple string string

text \<open>
  The library calls that name an external resource or a CRS:
  \<^verbatim>\<open>pandas.read_csv\<close>, \<^verbatim>\<open>pandas.read_parquet\<close>, \<^verbatim>\<open>geopandas.read_file\<close> (with its
  default engine, with \<^verbatim>\<open>engine="pyogrio"\<close>, and with \<^verbatim>\<open>use_arrow=True\<close> besides),
  \<^verbatim>\<open>geopandas.read_parquet\<close>; the methods \<^verbatim>\<open>to_file\<close> and \<^verbatim>\<open>to_parquet\<close>; the methods
  \<^verbatim>\<open>to_crs\<close> and \<^verbatim>\<open>set_crs\<close>.
\<close>

datatype engine = Fiona | Pyogrio | PyogrioArrow

datatype reader = PandasReadCsv | PandasReadParquet | ReadFile engine | ReadParquet

datatype writer = ToFile | ToParquet

datatype crs_method = ToCrs crs_arg | SetCrs crs_arg

text \<open>
  The statements of the notebook. Those that name an external resource or a CRS are
  written out; every other statement is \<open>Other n\<close>, with \<open>n\<close> the line of
  \<^verbatim>\<open>GeoPython2023.ipynb\<close> at which it starts, or \<open>Setup n\<close> for a statement of the
  second notebook, with \<open>n\<close> its line in \<^verbatim>\<open>src/unnamed/part_000\<close>.

  \<^item> \<open>AssignRead v r p m\<close> is \<^verbatim>\<open>v = r(p)\<close>, or \<^verbatim>\<open>v = r(p).m(...)\<close> when a CRS method is
    chained on;
  \<^item> \<open>ExprRead r p\<close> is the expression statement \<^verbatim>\<open>r(p)\<close>, its value dropped;
  \<^item> \<open>WriteVar v w p\<close> is \<^verbatim>\<open>v.w(p)\<close>;
  \<^item> \<open>CallOn v m\<close> is the expression statement \<^verbatim>\<open>v.m(...)\<close>.

  A statement stands in a cell plainly, under \<^verbatim>\<open>%time\<close> or under \<^verbatim>\<open>%timeit\<close>; the body
  of a \<^verbatim>\<open>%%time\<close> cell is one block under the magic.
\<close>

datatype action =
    AssignRead string reader path "crs_method option"
  | ExprRead reader path
  | WriteVar string writer path
  | CallOn string crs_method
  | Other nat
  | Setup nat

datatype stmt = Plain action | Time "action list" | Timeit action

text \<open>
  The wrapped libraries are parameters. A library call may do to the file system
  whatever it likes (a driver may keep a journal beside the file it writes), so a read
  and a write both take the file system and give it back; each call may raise. The
  tables and frames the libraries handle are values of an abstract type \<open>'f\<close>.
  \<open>run_line n\<close> is the effect of the statement that starts at line \<open>n\<close> of the workshop
  notebook, \<open>run_setup n\<close> that of the statement at line \<open>n\<close> of the second notebook.
\<close>

type_synonym 'f fs = "path \<rightharpoonup> 'f"

type_synonym 'f env = "string \<rightharpoonup> 'f"

record 'f library =
  read_with :: "reader \<Rightarrow> path \<Rightarrow> 'f fs \<Rightarrow> 'f fs \<times> (py_error + 'f)"
  write_with :: "writer \<Rightarrow> path \<Rightarrow> 'f \<Rightarrow> 'f fs \<Rightarrow> 'f fs \<times> py_error option"
  crs_with :: "crs_method \<Rightarrow> 'f \<Rightarrow> py_error + 'f"
  run_line :: "nat \<Rightarrow> 'f fs \<times> 'f env \<Rightarrow> ('f fs \<times> 'f env) \<times> py_error option"
  run_setup :: "nat \<Rightarrow> 'f fs \<times> 'f env \<Rightarrow> ('f fs \<times> 'f env) \<times> py_error option"

text \<open>
  The session: the external resources (local files and URLs, by name), the variables
  bound so far, the requests the notebook has passed to a reading or writing library
  call, and the exceptions whose traceback a magic has shown.
\<close>

record 'f session =
  files :: "'f fs"
  vars :: "'f env"
  issued :: "io_req list"
  shown :: "py_error list"

text \<open>
  A statement maps the session to the session after it and the exception it raised, if
  any. Effects that happened before the exception persist, as in Python. A variable is
  bound only after the whole right-hand side has been evaluated; a method call on an
  unbound variable raises \<^verbatim>\<open>NameError\<close> before any library is reached.
\<close>

fun chain :: "'f library \<Rightarrow> crs_method option \<Rightarrow> 'f \<Rightarrow> py_error + 'f" where
  "chain L None t = Inr t"
| "chain L (Some m) t = crs_with L m t"

fun body :: "'f library \<Rightarrow> action \<Rightarrow> 'f session \<Rightarrow> 'f session \<times> py_error option" where
  "body L (AssignRead v r p m) s =
     (case read_with L r p (files s) of
        (fs', res) \<Rightarrow>
          (let s1 = s\<lparr>files := fs', issued := issued s @ [Read p]\<rparr> in
           case res of
             Inl e \<Rightarrow> (s1, Some e)
           | Inr t \<Rightarrow>
               (case chain L m t of
                  Inl e \<Rightarrow> (s1, Some e)
                | Inr t' \<Rightarrow> (s1\<lparr>vars := (vars s1)(v \<mapsto> t')\<rparr>, None))))"
| "body L (ExprRead r p) s =
     (case read_with L r p (files s) of
        (fs', res) \<Rightarrow>
          (let s1 = s\<lparr>files := fs', issued := issued s @ [Read p]\<rparr> in
           case res of Inl e \<Rightarrow> (s1, Some e) | Inr t \<Rightarrow> (s1, None)))"
| "body L (WriteVar v w p) s =
     (case vars s v of
        None \<Rightarrow> (s, Some (NameError v))
      | Some t \<Rightarrow>
          (case write_with L w p t (files s) of
             (fs', res) \<Rightarrow> (s\<lparr>files := fs', issued := issued s @ [Write p]\<rparr>, res)))"
| "body L (CallOn v m) s =
     (case vars s v of
        None \<Rightarrow> (s, Some (NameError v))
      | Some t \<Rightarrow> (case crs_with L m t of Inl e \<Rightarrow> (s, Some e) | Inr t' \<Rightarrow> (s, None)))"
| "body L (Other n) s =
     (case run_line L n (files s, vars s) of
        ((fs', vs'), res) \<Rightarrow> (s\<lparr>files := fs', vars := vs'\<rparr>, res))"
| "body L (Setup n) s =
     (case run_setup L n (files s, vars s) of
        ((fs', vs'), res) \<Rightarrow> (s\<lparr>files := fs', vars := vs'\<rparr>, res))"

text \<open>Statements in a row: the first exception ends the row.\<close>

fun run_body :: "'f library \<Rightarrow> action list \<Rightarrow> 'f session \<Rightarrow> 'f session \<times> py_error option" where
  "run_body L [] s = (s, None)"
| "run_body L (a # as) s =
     (case body L a s of
        (s', Some e) \<Rightarrow> (s', Some e)
      | (s', None) \<Rightarrow> run_body L as s')"

text \<open>
  The magics, after IPython: \<^verbatim>\<open>%time\<close> and \<^verbatim>\<open>%%time\<close> run their code inside a
  \<^verbatim>\<open>try\<close>; when it raises they show the traceback and return, so that no exception
  leaves the magic and the cell goes on with what follows. \<^verbatim>\<open>%timeit\<close> has no handler.
  It runs its statement many times; one run is modelled.
\<close>

fun exec :: "'f library \<Rightarrow> stmt \<Rightarrow> 'f session \<Rightarrow> 'f session \<times> py_error option" where
  "exec L (Plain a) s = body L a s"
| "exec L (Timeit a) s = body L a s"
| "exec L (Time as) s =
     (case run_body L as s of
        (s', Some e) \<Rightarrow> (s'\<lparr>shown := shown s' @ [e]\<rparr>, None)
      | (s', None) \<Rightarrow> (s', None))"

text \<open>A cell runs its statements in order; an exception that leaves a statement ends it.\<close>

fun run_cell :: "'f library \<Rightarrow> stmt list \<Rightarrow> 'f session \<Rightarrow> 'f session \<times> py_error option" where
  "run_cell L [] s = (s, None)"
| "run_cell L (c # cs) s =
     (case exec L c s of
        (s', Some e) \<Rightarrow> (s', Some e)
      | (s', None) \<Rightarrow> run_cell L cs s')"

subsection \<open>The cells of the notebook\<close>

text \<open>
  Every code cell of \<^verbatim>\<open>GeoPython2023.ipynb\<close>, keyed by the line at which its first
  statement stands.
\<close>

definition wfs_url :: path where
  "wfs_url = ''https://kartta.hsy.fi/geoserver/wfs?service=wfs&version=2.0.0&request=GetFeature&typeName=asuminen_ja_maankaytto:Vaestotietoruudukko_2020&srsName=EPSG:4326&bbox=24.6,60.1,25.2,60.4,EPSG:4326''"

definition notebook_cells :: "(nat \<times> stmt list) list" where
  "notebook_cells =
    [(48, [Plain (Other 48), Plain (Other 49), Plain (Other 50), Plain (Other 51),
           Plain (Other 53)]),
     (71, [Plain (Other 71)]),
     (97, [Plain (Other 97), Plain (Other 98)]),
     (109, [Plain (Other 109), Plain (Other 110)]),
     (132, [Time [Other 132], Plain (Other 133)]),
     (153, [Time [Other 153], Plain (Other 154)]),
     (176, [Time [Other 176], Plain (Other 177)]),
     (195, [Plain (Other 195), Plain (Other 196)]),
     (216, [Time [Other 216], Plain (Other 217)]),
     (235, [Time [Other 235], Plain (Other 236)]),
     (258, [Plain (AssignRead ''df'' PandasReadCsv ''data/sales.csv'' None), Plain (Other 259)]),
     (270, [Plain (Other 270)]),
     (291, [Plain (Other 291), Time [Other 293], Plain (Other 294)]),
     (314, [Time [Other 314], Plain (Other 315)]),
     (326, [Plain (Other 326)]),
     (348, [Plain (AssignRead ''df'' PandasReadParquet ''data/sales.parquet'' None),
            Plain (Other 349)]),
     (370, [Plain (Other 370), Time [Other 372], Plain (Other 373)]),
     (393, [Time [Other 393], Plain (Other 394)]),
     (405, [Plain (Other 405)]),
     (428, [Plain (Other 428)]),
     (439, [Plain (Other 439)]),
     (450, [Plain (Other 450)]),
     (472, [Plain (Other 472), Plain (Other 475)]),
     (497, [Time [Other 497, Other 498, Other 499]]),
     (519, [Time [Other 519, Other 520, Other 522, Other 523, Other 524]]),
     (545, [Time [Other 545, Other 548]]),
     (566, [Plain (Other 566), Plain (Other 567)]),
     (586, [Time [Other 586, Other 592]]),
     (610, [Plain (Other 610)]),
     (629, [Time [Other 629, Other 630, Other 635]]),
     (667, [Time [AssignRead ''sales'' (ReadFile Fiona) ''data/sales.geojson'' None]]),
     (687, [Timeit (ExprRead (ReadFile Pyogrio) ''data/sales.geojson'')]),
     (705, [Plain (WriteVar ''sales'' ToFile ''data/sales.gpkg''),
            Plain (WriteVar ''sales'' ToParquet ''data/sales_geo.parquet'')]),
     (717, [Timeit (ExprRead (ReadFile Pyogrio) ''data/sales.gpkg'')]),
     (728, [Timeit (ExprRead (ReadFile PyogrioArrow) ''data/sales.gpkg'')]),
     (739, [Timeit (ExprRead ReadParquet ''data/sales_geo.parquet'')]),
     (763, [Plain (Other 763)]),
     (785, [Time [Other 785, Other 786]]),
     (807, [Time [Other 807, Other 808]]),
     (827, [Time [Other 827, Other 828]]),
     (849, [Time [Other 849]]),
     (869, [Plain (Other 869)]),
     (890, [Plain (Other 890), Plain (Other 893), Plain (Other 897), Time [Other 899],
            Plain (Other 900)]),
     (917, [Time [Other 917]]),
     (937, [Time [Other 937]]),
     (959, [Plain (Other 959)]),
     (979, [Plain (CallOn ''gdf'' (ToCrs (CrsDict [(''init'', ''epsg:3857'')])))]),
     (1010, [Plain (CallOn ''gdf'' (ToCrs (CrsString ''epsg:3857''))),
             Plain (CallOn ''gdf'' (ToCrs (CrsInt 3857))),
             Plain (CallOn ''gdf'' (ToCrs (CrsEpsgKeyword 3857))),
             Plain (CallOn ''gdf'' (ToCrs (CrsTuple ''epsg'' ''4326'')))]),
     (1038, [Plain (AssignRead ''population_grid'' (ReadFile Fiona) wfs_url (Some (SetCrs (CrsString ''EPSG:4326'')))),
             Plain (Other 1047)]),
     (1068, [Plain (Other 1068), Plain (Other 1071), Plain (Other 1074), Plain (Other 1077),
             Plain (Other 1089), Plain (Other 1093), Plain (Other 1098), Plain (Other 1103),
             Plain (Other 1108), Plain (Other 1110)]),
     (1130, [Plain (Other 1130)]),
     (1152, [Plain (AssignRead ''homes'' (ReadFile Pyogrio) ''data/sales.gpkg'' (Some (ToCrs (CrsString ''EPSG:2926'')))),
             Plain (AssignRead ''food'' (ReadFile Pyogrio) ''data/food_establishments.gpkg'' (Some (ToCrs (CrsString ''EPSG:2926''))))]),
     (1166, [Plain (Other 1166)]),
     (1189, [Time [Other 1189]]),
     (1201, [Time [Other 1201]]),
     (1225, [Plain (Other 1225), Plain (Other 1226)]),
     (1237, [Plain (Other 1237)]),
     (1249, [Time [Other 1249]]),
     (1288, [Time [Other 1288]]),
     (1306, [Plain (Other 1306)]),
     (1321, [Time [Other 1321, Other 1324, Other 1330]]),
     (1352, [Time [Other 1352]]),
     (1371, [Time [Other 1371, Other 1372, Other 1375]]),
     (1402, [Plain (Other 1402)]),
     (1414, [Time [Other 1414, Other 1415, Other 1418]]),
     (1429, [Plain (Other 1429)]),
     (1449, [Plain (Other 1449), Plain (Other 1457)]),
     (1477, [Plain (Other 1477)]),
     (1490, [Time [Other 1490, Other 1491]]),
     (1502, [Plain (Other 1502)]),
     (1520, [Plain (Other 1520)]),
     (1542, [Plain (Other 1542)]),
     (1554, [Time [Other 1554, Other 1555, Other 1563]]),
     (1574, [Plain (Other 1574)]),
     (1592, [Plain (Other 1592)]),
     (1610, [Plain (Other 1610), Plain (Other 1611), Plain (Other 1612)]),
     (1630, [Plain (Other 1630)]),
     (1641, [Plain (Other 1641)]),
     (1652, [Plain (Other 1652)]),
     (1668, [Plain (Other 1668)])]"

text \<open>
  The two code cells of the second notebook, \<^verbatim>\<open>import geopandas\<close> and
  \<^verbatim>\<open>geopandas.show_versions()\<close>, keyed by their lines in \<^verbatim>\<open>src/unnamed/part_000\<close>;
  neither number is the key of a cell of the workshop notebook.
\<close>

definition setup_cells :: "(nat \<times> stmt list) list" where
  "setup_cells = [(85, [Plain (Setup 85)]), (134, [Plain (Setup 134)])]"

definition all_cells :: "(nat \<times> stmt list) list" where
  "all_cells = notebook_cells @ setup_cells"

text \<open>
  The user may run cells in any order and any number of times; after an exception the
  session goes on with the state the failed cell left behind.
\<close>

fun run_session :: "'f library \<Rightarrow> nat list \<Rightarrow> 'f session \<Rightarrow> 'f session" where
  "run_session L [] s = s"
| "run_session L (k # ks) s =
     (case map_of all_cells k of
        None \<Rightarrow> run_session L ks s
      | Some c \<Rightarrow> run_session L ks (fst (run_cell L c s)))"

subsection \<open>Magics, library errors and requests\<close>

text \<open>
  The statements a cell holds, with the magics set aside; whether a statement stands
  under \<^verbatim>\<open>%time\<close> or \<^verbatim>\<open>%%time\<close>; and the cells that hold such a statement.
\<close>

fun actions_of :: "stmt \<Rightarrow> action list" where
  "actions_of (Plain a) = [a]"
| "actions_of (Timeit a) = [a]"
| "actions_of (Time as) = as"





text \<open>
  The five sample data files the specification names; the requests the notebook passes
  to a reading or a writing library call; and the request a statement passes.
\<close>

definition sample_files :: "path list" where
  "sample_files = [''data/sales.csv'', ''data/sales.parquet'', ''data/sales.geojson'',
     ''data/sales.gpkg'', ''data/food_establishments.gpkg'']"

definition requests :: "io_req list" where
  "requests = map Read (sample_files @ [''data/sales_geo.parquet'', wfs_url])
     @ map Write [''data/sales.gpkg'', ''data/sales_geo.parquet'']"

fun request_of :: "action \<Rightarrow> io_req list" where
  "request_of (AssignRead v r p m) = [Read p]"
| "request_of (ExprRead r p) = [Read p]"
| "request_of (WriteVar v w p) = [Write p]"
| "request_of (CallOn v m) = []"
| "request_of (Other n) = []"
| "request_of (Setup n) = []"

text \<open>
  A library to run cells on. A reader finds a resource or raises what the real reader
  raises for a missing one (\<^verbatim>\<open>FileNotFoundError\<close> from pandas and pyarrow,
  \<^verbatim>\<open>DriverError\<close> from Fiona, \<^verbatim>\<open>DataSourceError\<close> from pyogrio); a writer stores the
  frame under the path, and the GeoPackage driver leaves no journal file behind; every
  CRS is accepted; the other statements do nothing.
\<close>

fun missing :: "reader \<Rightarrow> py_error" where
  "missing PandasReadCsv = FileNotFoundError"
| "missing PandasReadParquet = FileNotFoundError"
| "missing (ReadFile Fiona) = LibraryError ''DriverError''"
| "missing (ReadFile Pyogrio) = LibraryError ''DataSourceError''"
| "missing (ReadFile PyogrioArrow) = LibraryError ''DataSourceError''"
| "missing ReadParquet = FileNotFoundError"

fun journal :: "writer \<Rightarrow> path \<Rightarrow> path list" where
  "journal ToFile p = [p @ ''-journal'']"
| "journal ToParquet p = []"

definition local_library :: "nat library" where
  "local_library = \<lparr>
     read_with = (\<lambda>r p fs. (fs, case fs p of None \<Rightarrow> Inl (missing r) | Some t \<Rightarrow> Inr t)),
     write_with = (\<lambda>w p t fs. ((fs(p \<mapsto> t)) |` (- set (journal w p)), None)),
     crs_with = (\<lambda>m t. Inr t),
     run_line = (\<lambda>n st. (st, None)),
     run_setup = (\<lambda>n st. (st, None))\<rparr>"


definition fresh_session :: "nat session" where
  "fresh_session = \<lparr>files = [''data/sales.geojson'' \<mapsto> 7], vars = Map.empty,
     issued = [], shown = []\<rparr>"

section \<open>Merging overlapping polygons\<close>

text \<open>
  Geometries are values of an abstract type \<open>'g\<close>; the predicate \<open>ov a b\<close> stands for
  \<^verbatim>\<open>a.overlaps(b)\<close> of the geometry engine and is a parameter. A GeoDataFrame \<^verbatim>\<open>s\<close> is the
  list of its geometries in row order.

  \<^verbatim>\<open>s.overlaps(x)\<close> tests every row of \<^verbatim>\<open>s\<close> against \<^verbatim>\<open>x\<close>. The old code (line 1490),
  \<^verbatim>\<open>s.geometry.apply(lambda x: s.overlaps(x)).values.astype(bool)\<close>, applies it to every
  row \<^verbatim>\<open>x\<close> of \<^verbatim>\<open>s\<close>: pandas stacks the rows of results into a table, whose values are
  a two-dimensional array; applied to an empty series it returns an empty series, whose
  values are a one-dimensional array.
\<close>

datatype 'a ndarray = Array1 "'a list" | Array2 "'a list list"

definition overlaps_series :: "('g \<Rightarrow> 'g \<Rightarrow> bool) \<Rightarrow> 'g list \<Rightarrow> 'g \<Rightarrow> bool list" where
  "overlaps_series ov s x = map (\<lambda>y. ov y x) s"

definition overlap_matrix :: "('g \<Rightarrow> 'g \<Rightarrow> bool) \<Rightarrow> 'g list \<Rightarrow> bool ndarray" where
  "overlap_matrix ov s =
     (if s = [] then Array1 [] else Array2 (map (\<lambda>x. overlaps_series ov s x) s))"

text \<open>
  The graph \<^verbatim>\<open>scipy.sparse.csgraph.connected_components\<close> works on: the number of nodes
  and the (row, column) positions of the stored entries. A dense matrix is read entry
  by entry, a non-zero entry being an edge.
  \<^verbatim>\<open>coo_array((data, (row, col)), shape=(n, n))\<close> stores \<^verbatim>\<open>data[k]\<close> at
  \<^verbatim>\<open>(row[k], col[k])\<close>: the three arrays must have one length and every index must lie
  inside the shape, and every stored entry counts as an edge, whatever its value.
  \<^verbatim>\<open>numpy.ones(k, dtype=bool)\<close> is \<open>k\<close> times \<^verbatim>\<open>True\<close>.
\<close>

type_synonym csgraph = "nat \<times> (nat \<times> nat) list"

definition from_dense :: "bool list list \<Rightarrow> csgraph" where
  "from_dense M =
     (length M, [(i, j). i \<leftarrow> [0..<length M], j \<leftarrow> [0..<length M], M ! i ! j])"



text \<open>
  \<^verbatim>\<open>connected_components(csgraph)\<close> with its defaults (\<^verbatim>\<open>directed=True\<close>,
  \<^verbatim>\<open>connection='weak'\<close>), after the documentation of SciPy: two nodes are in one
  component when a path joins them that may follow edges in either direction. It returns
  the number of components and one label per node; labels are handed out in the order
  in which the nodes are visited, so a component is numbered by its smallest node.
  A dense argument must be a square two-dimensional array, or \<^verbatim>\<open>ValueError\<close> is raised.
\<close>

definition und :: "(nat \<times> nat) list \<Rightarrow> (nat \<times> nat) set" where
  "und es = set es \<union> (set es)\<inverse>"

definition connected :: "(nat \<times> nat) list \<Rightarrow> nat \<Rightarrow> nat \<Rightarrow> bool" where
  "connected es i j \<longleftrightarrow> i = j \<or> (i, j) \<in> (und es)\<^sup>+"

definition root :: "csgraph \<Rightarrow> nat \<Rightarrow> nat" where
  "root G i = hd (filter (connected (snd G) i) [0..<fst G])"

definition connected_components :: "csgraph \<Rightarrow> nat \<times> nat list" where
  "connected_components G =
     (length (filter (\<lambda>k. root G k = k) [0..<fst G]),
      map (\<lambda>i. length (filter (\<lambda>k. root G k = k) [0..<root G i])) [0..<fst G])"

definition connected_components_dense :: "bool ndarray \<Rightarrow> py_error + nat \<times> nat list" where
  "connected_components_dense A =
     (case A of
        Array1 xs \<Rightarrow> Inl ValueError
      | Array2 M \<Rightarrow>
          if list_all (\<lambda>row. length row = length M) M
          then Inr (connected_components (from_dense M))
          else Inl ValueError)"




text \<open>
  The old code (lines 1490-1491) and the new code (lines 1554-1563). The new code names
  the first array returned by the query \<^verbatim>\<open>right_index\<close> and the second \<^verbatim>\<open>left_index\<close>,
  and passes \<^verbatim>\<open>(right_index, left_index)\<close> as rows and columns.
\<close>

definition old_ids :: "('g \<Rightarrow> 'g \<Rightarrow> bool) \<Rightarrow> 'g list \<Rightarrow> py_error + nat \<times> nat list" where
  "old_ids ov s = connected_components_dense (overlap_matrix ov s)"



text \<open>
  The four squares of lines 1451-1454 as boxes \<open>(x0, y0, x1, y1)\<close>, and the overlap of two
  boxes: their interiors meet and neither contains the other.
\<close>

type_synonym box = "int \<times> int \<times> int \<times> int"

definition box_overlaps :: "box \<Rightarrow> box \<Rightarrow> bool" where
  "box_overlaps a b =
     (case (a, b) of ((ax0, ay0, ax1, ay1), (bx0, by0, bx1, by1)) \<Rightarrow>
        max ax0 bx0 < min ax1 bx1 \<and> max ay0 by0 < min ay1 by1 \<and>
        \<not> (ax0 \<le> bx0 \<and> ay0 \<le> by0 \<and> bx1 \<le> ax1 \<and> by1 \<le> ay1) \<and>
        \<not> (bx0 \<le> ax0 \<and> by0 \<le> ay0 \<and> ax1 \<le> bx1 \<and> ay1 \<le> by1))"

definition squares :: "box list" where
  "squares = [(0, 0, 2, 2), (0, 1, 2, 3), (1, 0, 3, 2), (4, 4, 6, 6)]"

section \<open>Lines from points\<close>

text \<open>
  A trajectory table is the list of its coordinate rows and the list of its
  \<^verbatim>\<open>traj_id\<close> values, row by row. Coordinates are only moved around, never computed
  with, so their type \<open>'c\<close> is left open. The column \<^verbatim>\<open>traj_id\<close> is an integer column
  (line 473: \<^verbatim>\<open>numpy.repeat(numpy.arange(12500), 8)\<close>), which holds no missing value.

  \<^verbatim>\<open>pandas.factorize(ids)\<close>, after the documentation of pandas: the distinct values in
  the order of their first appearance, and for every row the position of its value
  among them.
\<close>

datatype 'c linestring = LineString "'c list"

fun uniques_from :: "'k list \<Rightarrow> 'k list \<Rightarrow> 'k list" where
  "uniques_from seen [] = seen"
| "uniques_from seen (x # xs) =
     (if x \<in> set seen then uniques_from seen xs else uniques_from (seen @ [x]) xs)"

definition code_of :: "'k list \<Rightarrow> 'k \<Rightarrow> nat" where
  "code_of us x = length (takeWhile (\<lambda>u. u \<noteq> x) us)"

definition factorize :: "int list \<Rightarrow> nat list \<times> int list" where
  "factorize ids = (let us = uniques_from [] ids in (map (code_of us) ids, us))"

text \<open>
  The geometry engine builds a line from no coordinate or from two and more; a single
  coordinate is rejected with \<^verbatim>\<open>GEOSException\<close>.
\<close>

definition make_linestring :: "'c list \<Rightarrow> py_error + 'c linestring" where
  "make_linestring cs = (if length cs = 1 then Inl GEOSException else Inr (LineString cs))"

fun collect :: "('e + 'a) list \<Rightarrow> 'e + 'a list" where
  "collect [] = Inr []"
| "collect (Inl e # rs) = Inl e"
| "collect (Inr a # rs) = (case collect rs of Inl e \<Rightarrow> Inl e | Inr as \<Rightarrow> Inr (a # as))"

text \<open>
  \<^verbatim>\<open>shapely.linestrings(coords, indices=indices)\<close>, after the documentation and the
  behaviour of Shapely 2.0: coordinates and indices must have equal length, the indices
  must be sorted, and geometry \<open>k\<close> of the result is built from the coordinates whose
  index is \<open>k\<close>, for every \<open>k\<close> up to the largest index; each failure is a
  \<^verbatim>\<open>ValueError\<close>.
\<close>

definition linestrings :: "'c list \<Rightarrow> nat list \<Rightarrow> py_error + 'c linestring list" where
  "linestrings coords indices =
     (if length coords \<noteq> length indices then Inl ValueError
      else if coords = [] then Inr []
      else if \<not> sorted indices then Inl ValueError
      else collect (map (\<lambda>k.
             let cs = [c. (c, i) \<leftarrow> zip coords indices, i = k] in
             if cs = [] then Inl ValueError else make_linestring cs)
           [0..<Suc (Max (set indices))]))"

text \<open>The coordinate rows of trajectory \<open>k\<close>, in their row order.\<close>

definition per_trajectory :: "'c list \<Rightarrow> 'k list \<Rightarrow> 'k \<Rightarrow> 'c list" where
  "per_trajectory coords ids k = [c. (c, k') \<leftarrow> zip coords ids, k' = k]"

text \<open>
  The old code (line 497): \<^verbatim>\<open>df.groupby(["traj_id"])[["lon", "lat"]].apply(lambda x:
  LineString(x))\<close> builds one line per \<^verbatim>\<open>traj_id\<close> from the rows of that group, the
  groups in ascending order of the key.
\<close>

definition groupby_linestrings ::
  "'c list \<Rightarrow> int list \<Rightarrow> py_error + (int \<times> 'c linestring) list" where
  "groupby_linestrings coords ids =
     collect (map (\<lambda>k. case make_linestring (per_trajectory coords ids k) of
                          Inl e \<Rightarrow> Inl e | Inr g \<Rightarrow> Inr (k, g))
                  (sort (remdups ids)))"

text \<open>
  The new code (lines 587-589):
  \<^verbatim>\<open>shapely.linestrings(df[["lon", "lat"]], indices=pandas.factorize(df.traj_id)[0])\<close>.
\<close>

definition linestrings_factorized :: "'c list \<Rightarrow> int list \<Rightarrow> py_error + 'c linestring list" where
  "linestrings_factorized coords ids = linestrings coords (fst (factorize ids))"

text \<open>
  All rows of a trajectory stand together: once runs of equal neighbours are
  collapsed, no \<^verbatim>\<open>traj_id\<close> is left twice.
\<close>

definition contiguous :: "'k list \<Rightarrow> bool" where
  "contiguous ids = distinct (remdups_adj ids)"

section \<open>Files read and written\<close>

lemma body_issued: "set (issued (fst (body L a s))) \<subseteq> set (issued s) \<union> set (request_of a)"
  by (cases a) (auto simp: Let_def split: prod.splits sum.splits option.splits)

lemma run_body_issued:
  "(\<And>a. a \<in> set as \<Longrightarrow> set (request_of a) \<subseteq> R) \<Longrightarrow>
   set (issued (fst (run_body L as s))) \<subseteq> set (issued s) \<union> R"
proof (induction as arbitrary: s)
  case Nil
  show ?case by simp
next
  case (Cons a as)
  obtain s1 r where b: "body L a s = (s1, r)" by (cases "body L a s")
  have "set (issued s1) \<subseteq> set (issued s) \<union> set (request_of a)"
    using body_issued [of L a s] b by simp
  moreover have "set (request_of a) \<subseteq> R" using Cons.prems by simp
  ultimately have one: "set (issued s1) \<subseteq> set (issued s) \<union> R" by blast
  show ?case
  proof (cases r)
    case None
    have "set (issued (fst (run_body L as s1))) \<subseteq> set (issued s1) \<union> R"
      using Cons.prems by (intro Cons.IH) auto
    then show ?thesis using one b None by auto
  next
    case (Some e)
    then show ?thesis using one b by simp
  qed
qed

lemma exec_issued:
  "(\<And>a. a \<in> set (actions_of c) \<Longrightarrow> set (request_of a) \<subseteq> R) \<Longrightarrow>
   set (issued (fst (exec L c s))) \<subseteq> set (issued s) \<union> R"
proof (cases c)
  case (Plain a)
  assume "\<And>a. a \<in> set (actions_of c) \<Longrightarrow> set (request_of a) \<subseteq> R"
  then have "set (request_of a) \<subseteq> R" using Plain by simp
  then show ?thesis using body_issued [of L a s] Plain by auto
next
  case (Timeit a)
  assume "\<And>a. a \<in> set (actions_of c) \<Longrightarrow> set (request_of a) \<subseteq> R"
  then have "set (request_of a) \<subseteq> R" using Timeit by simp
  then show ?thesis using body_issued [of L a s] Timeit by auto
next
  case (Time as)
  assume "\<And>a. a \<in> set (actions_of c) \<Longrightarrow> set (request_of a) \<subseteq> R"
  then have "set (issued (fst (run_body L as s))) \<subseteq> set (issued s) \<union> R"
    using Time by (intro run_body_issued) simp
  then show ?thesis using Time by (auto split: prod.splits option.splits)
qed

lemma run_cell_issued:
  "(\<And>c a. c \<in> set cs \<Longrightarrow> a \<in> set (actions_of c) \<Longrightarrow> set (request_of a) \<subseteq> R) \<Longrightarrow>
   set (issued (fst (run_cell L cs s))) \<subseteq> set (issued s) \<union> R"
proof (induction cs arbitrary: s)
  case Nil
  show ?case by simp
next
  case (Cons c cs)
  obtain s1 r where b: "exec L c s = (s1, r)" by (cases "exec L c s")
  have "set (issued (fst (exec L c s))) \<subseteq> set (issued s) \<union> R"
    using Cons.prems by (intro exec_issued) auto
  then have one: "set (issued s1) \<subseteq> set (issued s) \<union> R" using b by simp
  show ?case
  proof (cases r)
    case None
    have "set (issued (fst (run_cell L cs s1))) \<subseteq> set (issued s1) \<union> R"
      using Cons.prems by (intro Cons.IH) auto
    then show ?thesis using one b None by auto
  next
    case (Some e)
    then show ?thesis using one b by simp
  qed
qed

lemma cells_name_requests:
  "list_all (\<lambda>kc. list_all (\<lambda>c. list_all (\<lambda>a. list_all (\<lambda>q. q \<in> set requests) (request_of a))
      (actions_of c)) (snd kc)) all_cells"
  by (simp add: all_cells_def notebook_cells_def setup_cells_def requests_def sample_files_def)

lemma notebook_cell_requests:
  assumes "map_of all_cells k = Some cs" and "c \<in> set cs" and "a \<in> set (actions_of c)"
  shows "set (request_of a) \<subseteq> set requests"
proof -
  have "(k, cs) \<in> set all_cells" using assms(1) by (rule map_of_SomeD)
  then show ?thesis
    using cells_name_requests assms(2,3) by (fastforce simp: list_all_iff)
qed

text \<open>
  Claim C6, as stated: the notebook reads nothing but the five sample data files and
  writes no file. It fails: running the cells at lines 667, 705, 739 and 1038 in a
  session that holds only \<^verbatim>\<open>data/sales.geojson\<close> passes two paths to writing calls and
  asks the readers for \<^verbatim>\<open>data/sales_geo.parquet\<close> and a WFS URL, neither of them a sample
  file; and
  \<^verbatim>\<open>data/sales.gpkg\<close>, absent before, exists afterwards.
\<close>

theorem only_sample_files_counterexample:
  "issued (run_session local_library [667, 705, 739, 1038] fresh_session) =
     [Read ''data/sales.geojson'', Write ''data/sales.gpkg'', Write ''data/sales_geo.parquet'',
      Read ''data/sales_geo.parquet'', Read wfs_url]
   \<and> Read ''data/sales_geo.parquet'' \<notin> set (map Read sample_files)
   \<and> Read wfs_url \<notin> set (map Read sample_files)
   \<and> files fresh_session ''data/sales.gpkg'' = None
   \<and> files (run_session local_library [667, 705, 739, 1038] fresh_session) ''data/sales.gpkg''
       = Some 7"
proof -
  have c667: "map_of all_cells 667 =
      Some [Time [AssignRead ''sales'' (ReadFile Fiona) ''data/sales.geojson'' None]]"
    and c705: "map_of all_cells 705 =
      Some [Plain (WriteVar ''sales'' ToFile ''data/sales.gpkg''),
            Plain (WriteVar ''sales'' ToParquet ''data/sales_geo.parquet'')]"
    and c739: "map_of all_cells 739 =
      Some [Timeit (ExprRead ReadParquet ''data/sales_geo.parquet'')]"
    and c1038: "map_of all_cells 1038 =
      Some [Plain (AssignRead ''population_grid'' (ReadFile Fiona) wfs_url
                     (Some (SetCrs (CrsString ''EPSG:4326'')))), Plain (Other 1047)]"
    by (simp_all add: all_cells_def notebook_cells_def)
  show ?thesis
    by (simp add: c667 c705 c739 c1038 local_library_def fresh_session_def sample_files_def
        wfs_url_def restrict_map_def)
qed

text \<open>
  Claim C6, amended: whatever the libraries do and in whatever order and however often
  the cells are run, the only resources the notebook names in a reading library call are
  the five sample data files, \<^verbatim>\<open>data/sales_geo.parquet\<close> and one WFS URL, and the only
  paths it names in a writing library call are \<^verbatim>\<open>data/sales.gpkg\<close> and
  \<^verbatim>\<open>data/sales_geo.parquet\<close>. What a library reads or writes of its own accord while it
  serves such a call is outside this statement.
\<close>

theorem notebook_requests_only:
  "set (issued (run_session L ks s)) \<subseteq> set (issued s) \<union> set requests"
proof (induction ks arbitrary: s)
  case Nil
  show ?case by simp
next
  case (Cons k ks)
  show ?case
  proof (cases "map_of all_cells k")
    case None
    then show ?thesis using Cons by simp
  next
    case (Some cs)
    have "set (issued (fst (run_cell L cs s))) \<subseteq> set (issued s) \<union> set requests"
      using Some by (intro run_cell_issued) (rule notebook_cell_requests)
    moreover have "set (issued (run_session L ks (fst (run_cell L cs s))))
        \<subseteq> set (issued (fst (run_cell L cs s))) \<union> set requests"
      by (rule Cons.IH)
    ultimately show ?thesis using Some by auto
  qed
qed

theorem notebook_requests_only_witness:
  "set (issued (run_session local_library [667, 705] fresh_session))
     \<subseteq> set (issued fresh_session) \<union> set requests
   \<and> issued (run_session local_library [667, 705] fresh_session) =
     [Read ''data/sales.geojson'', Write ''data/sales.gpkg'', Write ''data/sales_geo.parquet'']"
proof -
  have c667: "map_of all_cells 667 =
      Some [Time [AssignRead ''sales'' (ReadFile Fiona) ''data/sales.geojson'' None]]"
    and c705: "map_of all_cells 705 =
      Some [Plain (WriteVar ''sales'' ToFile ''data/sales.gpkg''),
            Plain (WriteVar ''sales'' ToParquet ''data/sales_geo.parquet'')]"
    by (simp_all add: all_cells_def notebook_cells_def)
  have "issued (run_session local_library [667, 705] fresh_session) =
     [Read ''data/sales.geojson'', Write ''data/sales.gpkg'', Write ''data/sales_geo.parquet'']"
    by (simp add: c667 c705 local_library_def fresh_session_def restrict_map_def)
  then show ?thesis
    using notebook_requests_only [of local_library "[667, 705]" fresh_session] by simp
qed

section \<open>Exceptions\<close>

lemma run_body_append:
  "run_body L (as @ bs) s =
     (case run_body L as s of (s', Some e) \<Rightarrow> (s', Some e) | (s', None) \<Rightarrow> run_body L bs s')"
  by (induction as arbitrary: s) (auto split: prod.splits option.splits)










section \<open>Components of the overlap graph\<close>











text \<open>
  On the four squares of the notebook the old code finds two components: the three
  squares that overlap one another, and the square that stands apart.
\<close>

lemma squares_components: "old_ids box_overlaps squares = Inr (2, [0, 0, 0, 1])"
  by code_simp


section \<open>One line per trajectory\<close>

lemma set_uniques_from: "set (uniques_from seen ids) = set seen \<union> set ids"
  by (induction ids arbitrary: seen) auto

lemma distinct_uniques_from: "distinct seen \<Longrightarrow> distinct (uniques_from seen ids)"
  by (induction ids arbitrary: seen) auto

lemma uniques_from_snoc:
  "uniques_from seen (ids @ [x]) =
     (if x \<in> set (uniques_from seen ids) then uniques_from seen ids
      else uniques_from seen ids @ [x])"
  by (induction ids arbitrary: seen) auto

lemma code_of_less: "x \<in> set us \<Longrightarrow> code_of us x < length us"
  by (induction us) (auto simp: code_of_def)

lemma code_of_append_old: "y \<in> set us \<Longrightarrow> code_of (us @ [x]) y = code_of us y"
  by (induction us) (auto simp: code_of_def)

lemma code_of_append_new: "x \<notin> set us \<Longrightarrow> code_of (us @ [x]) x = length us"
  by (induction us) (auto simp: code_of_def)

lemma code_of_nth: "distinct us \<Longrightarrow> k < length us \<Longrightarrow> code_of us (us ! k) = k"
proof (induction us arbitrary: k)
  case Nil
  then show ?case by simp
next
  case (Cons u us)
  show ?case
  proof (cases k)
    case 0
    then show ?thesis by (simp add: code_of_def)
  next
    case (Suc m)
    with Cons.prems have "m < length us" "us ! m \<noteq> u" "distinct us" by auto
    with Cons.IH [of m] Suc show ?thesis by (simp add: code_of_def)
  qed
qed

lemma nth_code_of: "x \<in> set us \<Longrightarrow> us ! code_of us x = x"
  by (induction us) (auto simp: code_of_def)

lemma remdups_adj_snoc:
  "remdups_adj (ids @ [x]) =
     (if ids \<noteq> [] \<and> last ids = x then remdups_adj ids else remdups_adj ids @ [x])"
proof (cases ids rule: rev_cases)
  case Nil
  then show ?thesis by simp
next
  case (snoc ys y)
  then show ?thesis by (simp add: remdups_adj_append_two)
qed

lemma contiguous_snoc:
  assumes "contiguous (ids @ [x])"
  shows "contiguous ids" and "x \<in> set ids \<Longrightarrow> ids \<noteq> [] \<and> last ids = x"
  using assms unfolding contiguous_def
  by (auto simp: remdups_adj_snoc split: if_splits)


lemma sorted_le_last: "sorted xs \<Longrightarrow> y \<in> set xs \<Longrightarrow> y \<le> last xs"
  by (induction xs) auto

lemma contiguous_codes_sorted:
  "contiguous ids \<Longrightarrow> sorted (map (code_of (uniques_from [] ids)) ids)"
proof (induction ids rule: rev_induct)
  case Nil
  show ?case by simp
next
  case (snoc x ids)
  let ?us = "uniques_from [] ids"
  have cont: "contiguous ids" using snoc.prems by (rule contiguous_snoc(1))
  then have IH: "sorted (map (code_of ?us) ids)" by (rule snoc.IH)
  have set_us: "set ?us = set ids" by (simp add: set_uniques_from)
  show ?case
  proof (cases "x \<in> set ids")
    case True
    then have last: "ids \<noteq> [] \<and> last ids = x" using snoc.prems by (rule contiguous_snoc(2)[rotated])
    have us': "uniques_from [] (ids @ [x]) = ?us"
      using True set_us by (simp add: uniques_from_snoc)
    have "code_of ?us x = last (map (code_of ?us) ids)"
      using last by (simp add: last_map)
    then have "\<forall>y\<in>set (map (code_of ?us) ids). y \<le> code_of ?us x"
      using IH sorted_le_last by metis
    then show ?thesis using IH us' by (simp add: sorted_append)
  next
    case False
    then have us': "uniques_from [] (ids @ [x]) = ?us @ [x]"
      using set_us by (simp add: uniques_from_snoc)
    have old: "map (code_of (?us @ [x])) ids = map (code_of ?us) ids"
      by (rule map_cong [OF refl]) (simp add: set_us code_of_append_old)
    have new: "code_of (?us @ [x]) x = length ?us"
      using False set_us by (simp add: code_of_append_new)
    have "\<forall>y\<in>set (map (code_of ?us) ids). y \<le> length ?us"
      using set_us code_of_less [of _ ?us] by (auto simp: less_imp_le)
    then show ?thesis using IH by (simp add: us' old new sorted_append)
  qed
qed

lemma codes_range:
  assumes "distinct us" and "set us = set ids"
  shows "set (map (code_of us) ids) = {0..<length us}"
proof
  show "set (map (code_of us) ids) \<subseteq> {0..<length us}"
    using assms code_of_less [of _ us] by auto
next
  show "{0..<length us} \<subseteq> set (map (code_of us) ids)"
  proof
    fix k assume "k \<in> {0..<length us}"
    then have k: "k < length us" by simp
    then have "us ! k \<in> set ids" using assms(2) nth_mem by blast
    moreover have "code_of us (us ! k) = k" using assms(1) k by (rule code_of_nth)
    ultimately show "k \<in> set (map (code_of us) ids)" by force
  qed
qed

lemma group_by_code:
  assumes "distinct us" and "k < length us"
  shows "length coords = length ids \<Longrightarrow> set ids \<subseteq> set us \<Longrightarrow>
         [c. (c, i) \<leftarrow> zip coords (map (code_of us) ids), i = k] =
         per_trajectory coords ids (us ! k)"
proof (induction coords ids rule: list_induct2)
  case Nil
  show ?case by (simp add: per_trajectory_def)
next
  case (Cons c coords x ids)
  have "x \<in> set us" using Cons.prems by simp
  then have "code_of us x = k \<longleftrightarrow> x = us ! k"
    using assms code_of_nth nth_code_of by metis
  moreover have "[c. (c, i) \<leftarrow> zip coords (map (code_of us) ids), i = k] =
         per_trajectory coords ids (us ! k)"
    using Cons by simp
  ultimately show ?case by (simp add: per_trajectory_def)
qed

lemma length_per_trajectory:
  "length coords = length ids \<Longrightarrow> length (per_trajectory coords ids k) = count_list ids k"
  by (induction coords ids rule: list_induct2) (simp_all add: per_trajectory_def)

lemma collect_all_Inr: "collect (map (\<lambda>k. Inr (g k)) ks) = Inr (map g ks)"
  by (induction ks) simp_all

lemma linestrings_contiguous:
  fixes coords :: "'c list"
  assumes cont: "contiguous ids" and len: "length coords = length ids"
    and two: "\<forall>k\<in>set ids. 2 \<le> count_list ids k"
  shows "linestrings coords (fst (factorize ids)) =
         Inr (map (\<lambda>k. LineString (per_trajectory coords ids k)) (snd (factorize ids)))"
proof (cases "ids = []")
  case True
  then show ?thesis using len by (simp add: linestrings_def factorize_def)
next
  case False
  let ?us = "uniques_from [] ids"
  let ?codes = "map (code_of ?us) ids"
  have dist: "distinct ?us" by (simp add: distinct_uniques_from)
  have set_us: "set ?us = set ids" by (simp add: set_uniques_from)
  have srt: "sorted ?codes" using cont by (rule contiguous_codes_sorted)
  have rng: "set ?codes = {0..<length ?us}" using dist set_us by (rule codes_range)
  have "?us \<noteq> []" using False set_us by auto
  then obtain m where m: "length ?us = Suc m" by (cases ?us) auto
  have "Max {0..<Suc m} = m" by (rule Max_eqI) auto
  then have "Max (set ?codes) = m" using rng m by simp
  then have upt: "[0..<Suc (Max (set ?codes))] = [0..<length ?us]"
    using m by simp
  let ?f = "\<lambda>k. let cs = [c. (c, i) \<leftarrow> zip coords ?codes, i = k] in
         if cs = [] then Inl ValueError else make_linestring cs"
  let ?g = "\<lambda>k. Inr (LineString (per_trajectory coords ids (?us ! k)))
              :: py_error + 'c linestring"
  have each: "?f k = ?g k" if "k \<in> set [0..<length ?us]" for k
  proof -
    have k: "k < length ?us" using that by simp
    have grp: "[c. (c, i) \<leftarrow> zip coords ?codes, i = k] = per_trajectory coords ids (?us ! k)"
      using dist k len set_us by (intro group_by_code) auto
    have "?us ! k \<in> set ids" using k set_us nth_mem by blast
    then have "2 \<le> length (per_trajectory coords ids (?us ! k))"
      using two len by (simp add: length_per_trajectory)
    then show ?thesis
      unfolding grp Let_def make_linestring_def by auto
  qed
  have maps: "map ?f [0..<length ?us] = map ?g [0..<length ?us]"
    by (rule map_cong [OF refl]) (rule each)
  have cne: "coords \<noteq> []" using False len by auto
  have "linestrings coords ?codes = collect (map ?f [0..<Suc (Max (set ?codes))])"
    using len cne srt by (simp add: linestrings_def)
  also have "\<dots> = collect (map ?g [0..<length ?us])"
    by (simp only: upt maps)
  also have "\<dots> = Inr (map (\<lambda>k. LineString (per_trajectory coords ids (?us ! k))) [0..<length ?us])"
    by (rule collect_all_Inr)
  also have "map (\<lambda>k. LineString (per_trajectory coords ids (?us ! k))) [0..<length ?us] =
             map (\<lambda>x. LineString (per_trajectory coords ids x)) ?us"
    by (rule nth_equalityI) simp_all
  finally show ?thesis by (simp add: factorize_def Let_def)
qed

lemma inj_on_code_of: "inj_on (code_of us) (set us)"
proof (rule inj_onI)
  fix x y assume x: "x \<in> set us" and y: "y \<in> set us" and eq: "code_of us x = code_of us y"
  have "x = us ! code_of us x" using x by (rule nth_code_of [symmetric])
  also have "\<dots> = us ! code_of us y" by (rule arg_cong [OF eq])
  also have "\<dots> = y" using y by (rule nth_code_of)
  finally show "x = y" .
qed

lemma sorted_codes_contiguous:
  "sorted (map f ids) \<Longrightarrow> inj_on f (set ids) \<Longrightarrow> contiguous ids"
  for f :: "'k \<Rightarrow> nat"
proof (induction ids rule: rev_induct)
  case Nil
  show ?case by (simp add: contiguous_def)
next
  case (snoc x ids)
  have srt: "sorted (map f ids)" and le: "\<forall>y\<in>set ids. f y \<le> f x"
    using snoc.prems(1) by (auto simp: sorted_append)
  have inj: "inj_on f (set ids)" using snoc.prems(2) by (rule inj_on_subset) auto
  have IH: "distinct (remdups_adj ids)"
    using snoc.IH srt inj by (simp add: contiguous_def)
  show ?case
  proof (cases "ids \<noteq> [] \<and> last ids = x")
    case True
    then show ?thesis using IH by (simp add: contiguous_def remdups_adj_snoc)
  next
    case False
    have "x \<notin> set ids"
    proof
      assume x: "x \<in> set ids"
      then have ne: "ids \<noteq> []" by auto
      then have "f (last ids) \<le> f x" using le by simp
      moreover have "f x \<le> last (map f ids)" using srt x by (intro sorted_le_last) auto
      ultimately have eq: "f x = f (last ids)" using ne by (simp add: last_map)
      have "x \<in> set (ids @ [x])" and "last ids \<in> set (ids @ [x])" using ne by simp_all
      with snoc.prems(2) eq have "x = last ids" by (rule inj_onD)
      then show False using False ne by simp
    qed
    then show ?thesis using IH False by (auto simp: contiguous_def remdups_adj_snoc)
  qed
qed

lemma interleaved_raises:
  assumes "\<not> contiguous ids" and "length coords = length ids"
  shows "linestrings_factorized coords ids = Inl ValueError"
proof -
  let ?us = "uniques_from [] ids"
  have "set ids \<subseteq> set ?us" by (simp add: set_uniques_from)
  then have "inj_on (code_of ?us) (set ids)"
    using inj_on_code_of [of ?us] by (rule inj_on_subset [rotated])
  then have "\<not> sorted (map (code_of ?us) ids)"
    using assms(1) sorted_codes_contiguous by blast
  moreover have "coords \<noteq> []"
    using assms by (auto simp: contiguous_def)
  moreover have "fst (factorize ids) = map (code_of ?us) ids"
    by (simp add: factorize_def Let_def)
  ultimately show ?thesis
    using assms(2) by (simp add: linestrings_factorized_def linestrings_def)
qed

lemma groupby_per_trajectory:
  assumes two: "\<forall>k\<in>set ids. 2 \<le> count_list ids k" and len: "length coords = length ids"
  shows "groupby_linestrings coords ids =
           Inr (map (\<lambda>k. (k, LineString (per_trajectory coords ids k))) (sort (remdups ids)))"
proof -
  let ?f = "\<lambda>k. case make_linestring (per_trajectory coords ids k) of
                  Inl e \<Rightarrow> Inl e | Inr g \<Rightarrow> Inr (k, g)"
  let ?g = "\<lambda>k. Inr (k, LineString (per_trajectory coords ids k))
              :: py_error + int \<times> 'a linestring"
  have each: "?f k = ?g k" if "k \<in> set (sort (remdups ids))" for k
  proof -
    have "k \<in> set ids" using that by simp
    then have "2 \<le> length (per_trajectory coords ids k)"
      using two len by (simp add: length_per_trajectory)
    then show ?thesis by (auto simp: make_linestring_def)
  qed
  have "map ?f (sort (remdups ids)) = map ?g (sort (remdups ids))"
    by (rule map_cong [OF refl]) (rule each)
  then have "groupby_linestrings coords ids = collect (map ?g (sort (remdups ids)))"
    by (simp only: groupby_linestrings_def)
  also have "\<dots> = Inr (map (\<lambda>k. (k, LineString (per_trajectory coords ids k))) (sort (remdups ids)))"
    by (rule collect_all_Inr)
  finally show ?thesis .
qed

text \<open>
  Claim C8, as stated, fails twice. It promises one line per \<^verbatim>\<open>traj_id\<close> whenever the
  rows of every trajectory are contiguous: a contiguous table with a trajectory of a
  single row makes the geometry engine raise. And it promises that for some interleaved
  table the call produces geometries that differ from the per-trajectory grouping: no
  interleaved table makes the call produce any geometry.
\<close>

theorem single_row_trajectory_counterexample:
  "contiguous [5 :: int]
   \<and> linestrings_factorized [(1 :: int, 2 :: int)] [5] = Inl GEOSException
   \<and> \<not> (\<exists>ids (coords :: (int \<times> int) list) gs.
          \<not> contiguous ids \<and> length coords = length ids \<and>
          linestrings_factorized coords ids = Inr gs)"
proof -
  have "contiguous [5 :: int]" by (simp add: contiguous_def)
  moreover have "linestrings_factorized [(1 :: int, 2 :: int)] [5] = Inl GEOSException"
    by (simp add: linestrings_factorized_def linestrings_def factorize_def code_of_def
        make_linestring_def)
  moreover have "\<not> (\<exists>ids (coords :: (int \<times> int) list) gs.
          \<not> contiguous ids \<and> length coords = length ids \<and>
          linestrings_factorized coords ids = Inr gs)"
  proof
    assume "\<exists>ids (coords :: (int \<times> int) list) gs.
          \<not> contiguous ids \<and> length coords = length ids \<and>
          linestrings_factorized coords ids = Inr gs"
    then obtain ids and coords :: "(int \<times> int) list" and gs where
      n: "\<not> contiguous ids" and l: "length coords = length ids"
      and r: "linestrings_factorized coords ids = Inr gs" by blast
    have "linestrings_factorized coords ids = Inl ValueError"
      using n l by (rule interleaved_raises)
    then show False using r by simp
  qed
  ultimately show ?thesis by simp
qed

text \<open>
  Claim C8, amended: if the rows of every trajectory are contiguous and every trajectory
  has at least two rows, the new code returns one line per distinct \<^verbatim>\<open>traj_id\<close>, in the
  order of first appearance, each holding exactly the coordinate rows of its trajectory
  in row order. For every table in which the rows of one trajectory are interleaved with
  rows of another the new code raises \<^verbatim>\<open>ValueError\<close> and produces no geometry, while the
  old groupby-apply code returns the per-trajectory lines of any table whose
  trajectories have at least two rows each.
\<close>

theorem linestrings_per_trajectory:
  fixes coords :: "'c list" and ids :: "int list"
  shows "(contiguous ids \<and> length coords = length ids \<and> (\<forall>k\<in>set ids. 2 \<le> count_list ids k) \<longrightarrow>
            linestrings_factorized coords ids =
              Inr (map (\<lambda>k. LineString (per_trajectory coords ids k)) (snd (factorize ids))))
         \<and> (\<not> contiguous ids \<and> length coords = length ids \<longrightarrow>
              linestrings_factorized coords ids = Inl ValueError)
         \<and> (length coords = length ids \<and> (\<forall>k\<in>set ids. 2 \<le> count_list ids k) \<longrightarrow>
              groupby_linestrings coords ids =
                Inr (map (\<lambda>k. (k, LineString (per_trajectory coords ids k))) (sort (remdups ids))))"
proof (intro conjI impI)
  assume "contiguous ids \<and> length coords = length ids \<and> (\<forall>k\<in>set ids. 2 \<le> count_list ids k)"
  then show "linestrings_factorized coords ids =
              Inr (map (\<lambda>k. LineString (per_trajectory coords ids k)) (snd (factorize ids)))"
    unfolding linestrings_factorized_def by (auto intro: linestrings_contiguous)
next
  assume "\<not> contiguous ids \<and> length coords = length ids"
  then show "linestrings_factorized coords ids = Inl ValueError"
    by (auto intro: interleaved_raises)
next
  assume "length coords = length ids \<and> (\<forall>k\<in>set ids. 2 \<le> count_list ids k)"
  then show "groupby_linestrings coords ids =
                Inr (map (\<lambda>k. (k, LineString (per_trajectory coords ids k))) (sort (remdups ids)))"
    by (auto intro: groupby_per_trajectory)
qed

theorem linestrings_per_trajectory_witness:
  "contiguous [0 :: int, 0, 3, 3] \<and> length [10 :: nat, 11, 12, 13] = length [0 :: int, 0, 3, 3] \<and>
   set [0 :: int, 0, 3, 3] = {0, 3} \<and>
   2 \<le> count_list [0 :: int, 0, 3, 3] 0 \<and> 2 \<le> count_list [0 :: int, 0, 3, 3] 3 \<and>
   linestrings_factorized [10 :: nat, 11, 12, 13] [0 :: int, 0, 3, 3] =
     Inr [LineString [10, 11], LineString [12, 13]] \<and>
   \<not> contiguous [0 :: int, 3, 0, 3] \<and>
   linestrings_factorized [10 :: nat, 11, 12, 13] [0 :: int, 3, 0, 3] = Inl ValueError \<and>
   groupby_linestrings [10 :: nat, 11, 12, 13] [0 :: int, 3, 0, 3] =
     Inr [(0, LineString [10, 12]), (3, LineString [11, 13])]"
proof -
  have h: "contiguous [0 :: int, 0, 3, 3] \<and> length [10 :: nat, 11, 12, 13] = length [0 :: int, 0, 3, 3] \<and>
   (\<forall>k\<in>set [0 :: int, 0, 3, 3]. 2 \<le> count_list [0 :: int, 0, 3, 3] k)"
    by (simp add: contiguous_def)
  have "linestrings_factorized [10 :: nat, 11, 12, 13] [0 :: int, 0, 3, 3] =
     Inr (map (\<lambda>k. LineString (per_trajectory [10 :: nat, 11, 12, 13] [0 :: int, 0, 3, 3] k))
            (snd (factorize [0 :: int, 0, 3, 3])))"
    using h linestrings_per_trajectory [of "[0, 0, 3, 3]" "[10 :: nat, 11, 12, 13]"] by blast
  moreover have "map (\<lambda>k. LineString (per_trajectory [10 :: nat, 11, 12, 13] [0 :: int, 0, 3, 3] k))
            (snd (factorize [0 :: int, 0, 3, 3])) = [LineString [10, 11], LineString [12, 13]]"
    by (simp add: factorize_def per_trajectory_def Let_def)
  ultimately have one: "linestrings_factorized [10 :: nat, 11, 12, 13] [0 :: int, 0, 3, 3] =
     Inr [LineString [10, 11], LineString [12, 13]]" by simp
  have i: "\<not> contiguous [0 :: int, 3, 0, 3] \<and> length [10 :: nat, 11, 12, 13] = length [0 :: int, 3, 0, 3]"
    by (simp add: contiguous_def)
  have two: "linestrings_factorized [10 :: nat, 11, 12, 13] [0 :: int, 3, 0, 3] = Inl ValueError"
    using i linestrings_per_trajectory [of "[0, 3, 0, 3]" "[10 :: nat, 11, 12, 13]"] by blast
  have g: "length [10 :: nat, 11, 12, 13] = length [0 :: int, 3, 0, 3] \<and>
      (\<forall>k\<in>set [0 :: int, 3, 0, 3]. 2 \<le> count_list [0 :: int, 3, 0, 3] k)"
    by simp
  have "groupby_linestrings [10 :: nat, 11, 12, 13] [0 :: int, 3, 0, 3] =
      Inr (map (\<lambda>k. (k, LineString (per_trajectory [10 :: nat, 11, 12, 13] [0 :: int, 3, 0, 3] k)))
        (sort (remdups [0 :: int, 3, 0, 3])))"
    using g linestrings_per_trajectory [of "[0, 3, 0, 3]" "[10 :: nat, 11, 12, 13]"] by blast
  then have three: "groupby_linestrings [10 :: nat, 11, 12, 13] [0 :: int, 3, 0, 3] =
     Inr [(0, LineString [10, 12]), (3, LineString [11, 13])]"
    by (simp add: per_trajectory_def)
  show ?thesis using h i one two three by simp
qed

end
